theory Spec2Isabelle
  imports Main
begin

section \<open>Python values used by the bot\<close>

text \<open>
  The program is a single Python module, \<^verbatim>\<open>bot.py\<close>. Python strings are modelled as HOL
  strings whose characters are read as the code points 0 to 255 (the Latin-1 block of
  Unicode); the string methods below are Python's on that range. Integers are Python's
  unbounded integers. Console output (\<^verbatim>\<open>print\<close>) is not modelled.
\<close>

datatype error =
    RuntimeError
  | ValueError
  | TypeError
  | AttributeError
  | RequestException
  | JSONDecodeError
  | PlaywrightError
  | ZoneInfoNotFoundError
  | OSError

text \<open>
  The values a field of the state dictionary takes: \<^verbatim>\<open>None\<close> (JSON \<^verbatim>\<open>null\<close>), an integer
  or a string. These are the values the program itself writes, together with what a
  hand-edited state file most plausibly holds; booleans, floats, arrays and objects inside
  the state file are outside the model.
\<close>

datatype pyval = PNone | PInt int | PStr string

type_synonym state = "string \<rightharpoonup> pyval"

text \<open>\<^verbatim>\<open>state.get(key)\<close> and \<^verbatim>\<open>state.get(key, default)\<close>.\<close>

definition dict_get :: "state \<Rightarrow> string \<Rightarrow> pyval \<Rightarrow> pyval" where
  "dict_get d k dflt = (case d k of None \<Rightarrow> dflt | Some v \<Rightarrow> v)"

subsection \<open>\<^verbatim>\<open>str()\<close> of an integer\<close>

definition digit_char :: "nat \<Rightarrow> char" where
  "digit_char d = char_of (48 + d)"

fun digits_of_nat :: "nat \<Rightarrow> string" where
  "digits_of_nat n =
     (if n < 10 then [digit_char n]
      else digits_of_nat (n div 10) @ [digit_char (n mod 10)])"

declare digits_of_nat.simps [simp del]

definition str_int :: "int \<Rightarrow> string" where
  "str_int i = (if i < 0 then CHR ''-'' # digits_of_nat (nat (- i)) else digits_of_nat (nat i))"

text \<open>\<^verbatim>\<open>str(v)\<close> for a state value: \<^verbatim>\<open>str(None)\<close> is the four letters \<^verbatim>\<open>None\<close>,
  a string is its own \<^verbatim>\<open>str\<close>.\<close>

fun py_str :: "pyval \<Rightarrow> string" where
  "py_str PNone = ''None''"
| "py_str (PInt i) = str_int i"
| "py_str (PStr s) = s"

subsection \<open>\<^verbatim>\<open>str.isdigit\<close>, \<^verbatim>\<open>int()\<close>, \<^verbatim>\<open>str.strip\<close>, \<^verbatim>\<open>str.lower\<close>\<close>

definition is_ascii_digit :: "char \<Rightarrow> bool" where
  "is_ascii_digit c = (48 \<le> (of_char c :: nat) \<and> (of_char c :: nat) \<le> 57)"

text \<open>
  A character counts for \<^verbatim>\<open>isdigit\<close> when its Unicode numeric type is Decimal or Digit.
  Below code point 256 these are the ten ASCII digits and the superscripts
  U+00B2, U+00B3 and U+00B9.
\<close>

definition isdigit_char :: "char \<Rightarrow> bool" where
  "isdigit_char c =
     (is_ascii_digit c \<or> (of_char c :: nat) = 178 \<or> (of_char c :: nat) = 179
        \<or> (of_char c :: nat) = 185)"

text \<open>\<^verbatim>\<open>val.isdigit()\<close>: at least one character, and every character a digit.\<close>

definition isdigit :: "string \<Rightarrow> bool" where
  "isdigit s = (s \<noteq> [] \<and> list_all isdigit_char s)"

text \<open>
  CPython's default bound on the number of digits \<^verbatim>\<open>int()\<close> converts from a string
  (\<^verbatim>\<open>sys.get_int_max_str_digits()\<close>, 4300 since CPython 3.11).
\<close>

definition int_max_str_digits :: nat where
  "int_max_str_digits = 4300"

definition digit_value :: "char \<Rightarrow> int" where
  "digit_value c = int (of_char c) - 48"

definition decimal_value :: "string \<Rightarrow> int" where
  "decimal_value s = foldl (\<lambda>acc c. 10 * acc + digit_value c) 0 s"

text \<open>
  \<^verbatim>\<open>int(val)\<close> as the scraper calls it, on a string for which \<^verbatim>\<open>val.isdigit()\<close> holds:
  a string of ASCII digits is read in base ten (leading zeros allowed); a superscript
  digit is not a decimal character, so \<^verbatim>\<open>int\<close> raises \<^verbatim>\<open>ValueError\<close>, as it does for more
  digits than the interpreter's bound.
\<close>

definition py_int :: "string \<Rightarrow> error + int" where
  "py_int s =
     (if s \<noteq> [] \<and> list_all is_ascii_digit s \<and> length s \<le> int_max_str_digits
      then Inr (decimal_value s) else Inl ValueError)"

text \<open>Python's \<^verbatim>\<open>str.isspace\<close> characters below code point 256.\<close>

definition isspace_char :: "char \<Rightarrow> bool" where
  "isspace_char c =
     (let n = (of_char c :: nat)
      in (9 \<le> n \<and> n \<le> 13) \<or> (28 \<le> n \<and> n \<le> 32) \<or> n = 133 \<or> n = 160)"

definition py_strip :: "string \<Rightarrow> string" where
  "py_strip s = rev (dropWhile isspace_char (rev (dropWhile isspace_char s)))"

text \<open>\<^verbatim>\<open>str.lower\<close> below code point 256: A to Z, and the accented capitals
  U+00C0 to U+00DE except the multiplication sign U+00D7.\<close>

definition lower_char :: "char \<Rightarrow> char" where
  "lower_char c =
     (let n = (of_char c :: nat)
      in if (65 \<le> n \<and> n \<le> 90) \<or> (192 \<le> n \<and> n \<le> 222 \<and> n \<noteq> 215)
         then char_of (n + 32) else c)"

definition py_lower :: "string \<Rightarrow> string" where
  "py_lower s = map lower_char s"

section \<open>Configuration and the outside world\<close>

text \<open>
  The module-level constants read from the environment when the module is loaded.
  \<^verbatim>\<open>TARGET_URL\<close>, \<^verbatim>\<open>STATE_FILE\<close> and \<^verbatim>\<open>TIMEZONE\<close> only name external resources, whose
  behaviour is an input of the model.
\<close>

record config =
  MY_CURRENT_APPOINTMENT :: int
  BOT_TOKEN :: string
  DEFAULT_CHAT_ID :: string
  HEARTBEAT_HOUR :: int

definition HEARTBEAT_WINDOW_MINUTES :: int where
  "HEARTBEAT_WINDOW_MINUTES = 10"

text \<open>
  The texts the bot sends, one constructor for each message literal of the source:
  the usage hint answering \<^verbatim>\<open>/start\<close>; the reply when a requested check saw no slot;
  the reply to a check (earliest date, current appointment, whether it is earlier); the
  daily heartbeat with its time stamp; the alert of the scheduled pass (earliest date,
  current appointment).
\<close>

datatype text_msg =
    StartHint
  | NoSlotsReply
  | CheckReply int int bool
  | HeartbeatText string
  | EarlierAlert int int

text \<open>An inbound update of the messaging API: \<^verbatim>\<open>update_id\<close> and \<^verbatim>\<open>message\<close> are read
  with \<^verbatim>\<open>dict.get\<close> and may be absent; inside a message, \<^verbatim>\<open>chat.id\<close> is present and
  \<^verbatim>\<open>text\<close> is optional.\<close>

record message =
  chat_id :: int
  msg_text :: "string option"

record update =
  update_id :: "int option"
  msg :: "message option"

text \<open>The two calls made to the messaging API, with the parameters that vary.\<close>

datatype request =
    SendMessage string text_msg
  | GetUpdates int

text \<open>
  What \<^verbatim>\<open>requests.post\<close> does: it raises (no connection, timeout), or it returns a
  response with its \<^verbatim>\<open>ok\<close> flag and a body. The body is either not JSON (\<^verbatim>\<open>r.json()\<close>
  raises) or a JSON object, of which only the \<^verbatim>\<open>result\<close> entry is read. A body that
  is JSON has the shape the messaging API documents: an object whose \<^verbatim>\<open>result\<close>, when
  present, is a list of updates of the shape above.
\<close>

datatype body = NotJson | JsonObject "update list option"

datatype http_outcome = ConnError | Response bool body

text \<open>The calls made on the page, in the order of the source.\<close>

datatype step =
    Goto
  | IsVisibleCookie
  | ClickCookie
  | WaitInputBox
  | ClickPlus
  | ClickWeiter1
  | WaitDialog
  | ClickDialogOk
  | WaitLocation
  | ClickWeiter2
  | WaitSuggestionForm
  | LocateDateInputs

text \<open>\<^verbatim>\<open>inp.get_attribute("value")\<close>: raises, or returns \<^verbatim>\<open>None\<close> or a string.\<close>

datatype attr_outcome = AttrRaises | AttrValue "string option"

text \<open>
  One browser session: whether starting the browser and opening the page raises, which
  calls on the page raise, whether the cookie button is visible, what the date inputs
  hold, and whether closing the browser raises.
\<close>

record session =
  launch_raises :: bool
  raises :: "step \<Rightarrow> bool"
  cookie_visible :: bool
  date_inputs :: "attr_outcome list"
  close_raises :: bool

text \<open>
  The world the run acts on: \<open>net n\<close> is the outcome of the \<open>n\<close>-th HTTP call, whose
  requests and outcomes are recorded in \<open>exchanges\<close>; \<open>browser n\<close> is the behaviour of the
  \<open>n\<close>-th browser session, and \<open>scrapes\<close> counts the sessions started.
\<close>

record world =
  net :: "nat \<Rightarrow> http_outcome"
  exchanges :: "(request \<times> http_outcome) list"
  browser :: "nat \<Rightarrow> session"
  scrapes :: nat

text \<open>The messages for which a send request was issued, and those the API accepted.\<close>

fun sent_of :: "(request \<times> http_outcome) \<Rightarrow> (string \<times> text_msg) list" where
  "sent_of (SendMessage c t, _) = [(c, t)]"
| "sent_of (GetUpdates _, _) = []"

fun delivered_of :: "(request \<times> http_outcome) \<Rightarrow> (string \<times> text_msg) list" where
  "delivered_of (SendMessage c t, Response True _) = [(c, t)]"
| "delivered_of _ = []"

definition sent :: "world \<Rightarrow> (string \<times> text_msg) list" where
  "sent w = concat (map sent_of (exchanges w))"

definition delivered :: "world \<Rightarrow> (string \<times> text_msg) list" where
  "delivered w = concat (map delivered_of (exchanges w))"

section \<open>Notifier\<close>

text \<open>\<^verbatim>\<open>tg_api\<close>: without a token it raises before any request; otherwise the request is
  issued, and a raised request, a response that is not ok, or a body that is not JSON
  raises.\<close>

definition tg_api :: "config \<Rightarrow> request \<Rightarrow> world \<Rightarrow> (error + body) \<times> world" where
  "tg_api cfg req w =
     (if BOT_TOKEN cfg = [] then (Inl RuntimeError, w)
      else
        let r = net w (length (exchanges w));
            w' = w\<lparr>exchanges := exchanges w @ [(req, r)]\<rparr>
        in case r of
             ConnError \<Rightarrow> (Inl RequestException, w')
           | Response ok b \<Rightarrow>
               if \<not> ok then (Inl RuntimeError, w')
               else (case b of NotJson \<Rightarrow> (Inl JSONDecodeError, w') | JsonObject res \<Rightarrow> (Inr b, w')))"

text \<open>\<^verbatim>\<open>send_telegram\<close>: returns at once for an empty \<^verbatim>\<open>chat_id\<close>; otherwise the
  \<^verbatim>\<open>except Exception\<close> clause turns every exception of \<^verbatim>\<open>tg_api\<close> into a normal return.\<close>

definition send_telegram :: "config \<Rightarrow> string \<Rightarrow> text_msg \<Rightarrow> world \<Rightarrow> (error + unit) \<times> world" where
  "send_telegram cfg chat t w =
     (if chat = [] then (Inr (), w)
      else case tg_api cfg (SendMessage chat t) w of
             (Inl e, w') \<Rightarrow> (Inr (), w')
           | (Inr b, w') \<Rightarrow> (Inr (), w'))"

section \<open>State store\<close>

text \<open>What opening and decoding the state file gives: the file is missing, it cannot be
  read, its content is not JSON, or it decodes, to a dictionary or to another JSON value.\<close>

datatype loaded = LDict state | LNotDict

datatype file_read = FileMissing | Unreadable | Corrupt | Decoded loaded

text \<open>The body of the \<^verbatim>\<open>try\<close> in \<^verbatim>\<open>load_state\<close>: \<^verbatim>\<open>open\<close> and \<^verbatim>\<open>json.load\<close>.\<close>

fun read_state_file :: "file_read \<Rightarrow> error + loaded" where
  "read_state_file FileMissing = Inl OSError"
| "read_state_file Unreadable = Inl OSError"
| "read_state_file Corrupt = Inl JSONDecodeError"
| "read_state_file (Decoded v) = Inr v"

definition load_state :: "file_read \<Rightarrow> error + loaded" where
  "load_state f =
     (case read_state_file f of
        Inl e \<Rightarrow> Inr (LDict Map.empty)
      | Inr v \<Rightarrow> Inr v)"

text \<open>\<^verbatim>\<open>save_state\<close>: writing the file raises or succeeds.\<close>

definition save_state :: "bool \<Rightarrow> state \<Rightarrow> error + state" where
  "save_state write_ok s = (if write_ok then Inr s else Inl OSError)"

section \<open>Appointment scraper\<close>

text \<open>A call on the page either raises or returns.\<close>

definition call :: "session \<Rightarrow> step \<Rightarrow> error + unit" where
  "call s st = (if raises s st then Inl PlaywrightError else Inr ())"

text \<open>Sequencing of statements: an exception of the first skips the rest.\<close>

definition and_then :: "error + unit \<Rightarrow> error + 'a \<Rightarrow> error + 'a" where
  "and_then a b = (case a of Inl e \<Rightarrow> Inl e | Inr u \<Rightarrow> b)"

text \<open>
  The loop over the date inputs, with the set \<^verbatim>\<open>found_dates\<close> as accumulator. A value
  enters the set when it is not \<^verbatim>\<open>None\<close>, not empty and \<^verbatim>\<open>isdigit\<close>; \<^verbatim>\<open>get_attribute\<close>
  and \<^verbatim>\<open>int\<close> may raise, which leaves the loop.
\<close>

fun collect_dates :: "attr_outcome list \<Rightarrow> int set \<Rightarrow> error + int set" where
  "collect_dates [] found = Inr found"
| "collect_dates (AttrRaises # rest) found = Inl PlaywrightError"
| "collect_dates (AttrValue None # rest) found = collect_dates rest found"
| "collect_dates (AttrValue (Some val) # rest) found =
     (if val \<noteq> [] \<and> isdigit val
      then (case py_int val of
              Inl e \<Rightarrow> Inl e
            | Inr n \<Rightarrow> collect_dates rest (insert n found))
      else collect_dates rest found)"

text \<open>What follows the wait for the suggestion form: collect the dates, return the
  minimum, or \<^verbatim>\<open>None\<close> when the set is empty.\<close>

definition read_dates :: "session \<Rightarrow> error + int option" where
  "read_dates s =
     and_then (call s LocateDateInputs)
       (case collect_dates (date_inputs s) {} of
          Inl e \<Rightarrow> Inl e
        | Inr found \<Rightarrow> if found = {} then Inr None else Inr (Some (Min found)))"

text \<open>The body of the outer \<^verbatim>\<open>try\<close>. The inner \<^verbatim>\<open>try\<close> around the wait for the
  suggestion form returns \<^verbatim>\<open>None\<close> when the wait raises.\<close>

definition scrape_page :: "session \<Rightarrow> error + int option" where
  "scrape_page s =
     and_then (call s Goto)
    (and_then (call s IsVisibleCookie)
    (and_then (if cookie_visible s then call s ClickCookie else Inr ())
    (and_then (call s WaitInputBox)
    (and_then (call s ClickPlus)
    (and_then (call s ClickWeiter1)
    (and_then (call s WaitDialog)
    (and_then (call s ClickDialogOk)
    (and_then (call s WaitLocation)
    (and_then (call s ClickWeiter2)
    (case call s WaitSuggestionForm of
       Inl e \<Rightarrow> Inr None
     | Inr u \<Rightarrow> read_dates s))))))))))"

text \<open>
  \<^verbatim>\<open>check_for_appointments\<close>: the browser is started and the page opened outside the
  \<^verbatim>\<open>try\<close>; \<^verbatim>\<open>except Exception\<close> turns an exception of the body into \<^verbatim>\<open>None\<close>; the
  \<^verbatim>\<open>finally\<close> clause closes the browser, and an exception of the close replaces the result.
\<close>

definition check_for_appointments :: "world \<Rightarrow> (error + int option) \<times> world" where
  "check_for_appointments w =
     (let s = browser w (scrapes w);
          w' = w\<lparr>scrapes := Suc (scrapes w)\<rparr>
      in if launch_raises s then (Inl PlaywrightError, w')
         else
           let r = (case scrape_page s of Inl e \<Rightarrow> Inr None | Inr v \<Rightarrow> Inr v)
           in if close_raises s then (Inl PlaywrightError, w') else (r, w'))"

section \<open>Heartbeat\<close>

text \<open>\<^verbatim>\<open>datetime.now(ZoneInfo(TIMEZONE))\<close>: the zone lookup raises, or the local time is
  read: the ISO date, the hour, the minute and the formatted time stamp.\<close>

record now_reading =
  today :: string
  hour :: int
  minute :: int
  stamp :: string

datatype clock = ClockRaises | Now now_reading

definition maybe_send_daily_heartbeat ::
    "config \<Rightarrow> clock \<Rightarrow> state \<Rightarrow> world \<Rightarrow> (error + state) \<times> world" where
  "maybe_send_daily_heartbeat cfg clk s w =
     (if DEFAULT_CHAT_ID cfg = [] then (Inr s, w)
      else case clk of
        ClockRaises \<Rightarrow> (Inl ZoneInfoNotFoundError, w)
      | Now n \<Rightarrow>
          let last_ping_date = dict_get s ''last_ping_date'' PNone
          in if last_ping_date = PStr (today n) then (Inr s, w)
             else if hour n = HEARTBEAT_HOUR cfg \<and> minute n < HEARTBEAT_WINDOW_MINUTES
             then (case send_telegram cfg (DEFAULT_CHAT_ID cfg) (HeartbeatText (stamp n)) w of
                     (Inl e, w') \<Rightarrow> (Inl e, w')
                   | (Inr u, w') \<Rightarrow> (Inr (s(''last_ping_date'' \<mapsto> PStr (today n))), w'))
             else (Inr s, w))"

section \<open>Command processor\<close>

text \<open>\<^verbatim>\<open>resp.get("result", [])\<close>.\<close>

fun result_of :: "body \<Rightarrow> update list" where
  "result_of NotJson = []"
| "result_of (JsonObject None) = []"
| "result_of (JsonObject (Some us)) = us"

text \<open>The reply to a check request: \<^verbatim>\<open>None\<close> gives the no-slots text, a date the
  result text with the verdict \<^verbatim>\<open>earliest < MY_CURRENT_APPOINTMENT\<close>.\<close>

definition check_reply :: "config \<Rightarrow> int option \<Rightarrow> text_msg" where
  "check_reply cfg earliest =
     (case earliest of
        None \<Rightarrow> NoSlotsReply
      | Some d \<Rightarrow> CheckReply d (MY_CURRENT_APPOINTMENT cfg) (d < MY_CURRENT_APPOINTMENT cfg))"

text \<open>
  The body of the loop after the update id is tracked: an update without a message, or
  whose stripped text is empty, is skipped (\<^verbatim>\<open>continue\<close>); a start request is answered
  with the usage hint; a check request runs the scraper, whose exception leaves the loop,
  and is answered with the result; any other text is ignored.
\<close>

definition handle_message :: "config \<Rightarrow> update \<Rightarrow> world \<Rightarrow> (error + unit) \<times> world" where
  "handle_message cfg u w =
     (case msg u of
        None \<Rightarrow> (Inr (), w)
      | Some ms \<Rightarrow>
          let chat = str_int (chat_id ms);
              txt = py_strip (case msg_text ms of None \<Rightarrow> [] | Some t \<Rightarrow> t)
          in if txt = [] then (Inr (), w)
             else if py_lower txt \<in> set [''/start'', ''start'']
             then send_telegram cfg chat StartHint w
             else if py_lower txt \<in> set [''/check'', ''check'', ''/status'', ''status'']
             then (case check_for_appointments w of
                     (Inl e, w') \<Rightarrow> (Inl e, w')
                   | (Inr earliest, w') \<Rightarrow> send_telegram cfg chat (check_reply cfg earliest) w')
             else (Inr (), w))"

text \<open>
  The loop over the updates, with \<^verbatim>\<open>max_update_id\<close> as accumulator. An update without
  \<^verbatim>\<open>update_id\<close> leaves the accumulator as it is.
\<close>

fun handle_updates :: "config \<Rightarrow> update list \<Rightarrow> int \<Rightarrow> world \<Rightarrow> (error + int) \<times> world" where
  "handle_updates cfg [] max_update_id w = (Inr max_update_id, w)"
| "handle_updates cfg (u # us) max_update_id w =
     (let m = max max_update_id (case update_id u of None \<Rightarrow> max_update_id | Some i \<Rightarrow> i)
      in case handle_message cfg u w of
           (Inl e, w') \<Rightarrow> (Inl e, w')
         | (Inr x, w') \<Rightarrow> handle_updates cfg us m w')"

text \<open>
  \<^verbatim>\<open>process_incoming_commands\<close>. The offset \<^verbatim>\<open>last_update_id + 1\<close> is computed inside the
  \<^verbatim>\<open>try\<close>, so the \<^verbatim>\<open>TypeError\<close> of a stored \<^verbatim>\<open>None\<close> or string returns like a failed
  poll, before any request. The state is written once, after the loop.
\<close>

definition process_incoming_commands ::
    "config \<Rightarrow> state \<Rightarrow> world \<Rightarrow> (error + state) \<times> world" where
  "process_incoming_commands cfg s w =
     (case dict_get s ''last_update_id'' (PInt 0) of
        PNone \<Rightarrow> (Inr s, w)
      | PStr x \<Rightarrow> (Inr s, w)
      | PInt last_update_id \<Rightarrow>
          (case tg_api cfg (GetUpdates (last_update_id + 1)) w of
             (Inl e, w') \<Rightarrow> (Inr s, w')
           | (Inr resp, w') \<Rightarrow>
               let updates = result_of resp
               in if updates = [] then (Inr s, w')
                  else (case handle_updates cfg updates last_update_id w' of
                          (Inl e, w'') \<Rightarrow> (Inl e, w'')
                        | (Inr m, w'') \<Rightarrow> (Inr (s(''last_update_id'' \<mapsto> PInt m)), w''))))"

text \<open>The update ids present in a batch, in the order received.\<close>

definition batch_ids :: "update list \<Rightarrow> int list" where
  "batch_ids us = List.map_filter update_id us"

section \<open>Orchestrator\<close>

text \<open>The comparison and the alert of the scheduled pass, for the scraper's result.\<close>

definition notify_if_earlier ::
    "config \<Rightarrow> int option \<Rightarrow> state \<Rightarrow> world \<Rightarrow> (error + state) \<times> world" where
  "notify_if_earlier cfg earliest s w =
     (case earliest of
        None \<Rightarrow> (Inr s, w)
      | Some d \<Rightarrow>
          if d < MY_CURRENT_APPOINTMENT cfg
          then
            let last_notified = dict_get s ''last_notified_earliest'' PNone
            in if str_int d \<noteq> py_str last_notified
               then (case (if DEFAULT_CHAT_ID cfg \<noteq> []
                           then send_telegram cfg (DEFAULT_CHAT_ID cfg)
                                  (EarlierAlert d (MY_CURRENT_APPOINTMENT cfg)) w
                           else (Inr (), w)) of
                       (Inl e, w') \<Rightarrow> (Inl e, w')
                     | (Inr u, w') \<Rightarrow> (Inr (s(''last_notified_earliest'' \<mapsto> PInt d)), w'))
               else (Inr s, w)
          else (Inr s, w))"

text \<open>The scheduled pass: one run of the scraper, then the comparison.\<close>

definition scheduled_pass :: "config \<Rightarrow> state \<Rightarrow> world \<Rightarrow> (error + state) \<times> world" where
  "scheduled_pass cfg s w =
     (case check_for_appointments w of
        (Inl e, w') \<Rightarrow> (Inl e, w')
      | (Inr earliest, w') \<Rightarrow> notify_if_earlier cfg earliest s w')"

text \<open>
  \<^verbatim>\<open>main\<close>: the token check, the load, the three passes in order and the save. A loaded
  value that is not a dictionary has no \<^verbatim>\<open>get\<close>, so the first statement of the command
  processor raises \<^verbatim>\<open>AttributeError\<close>. The result \<open>Inr s\<close> is the state written to the
  file.
\<close>

definition main ::
    "config \<Rightarrow> file_read \<Rightarrow> clock \<Rightarrow> bool \<Rightarrow> world \<Rightarrow> (error + state) \<times> world" where
  "main cfg f clk write_ok w =
     (if BOT_TOKEN cfg = [] then (Inl RuntimeError, w)
      else case load_state f of
        Inl e \<Rightarrow> (Inl e, w)
      | Inr LNotDict \<Rightarrow> (Inl AttributeError, w)
      | Inr (LDict s0) \<Rightarrow>
          (case process_incoming_commands cfg s0 w of
             (Inl e, w1) \<Rightarrow> (Inl e, w1)
           | (Inr s1, w1) \<Rightarrow>
               (case maybe_send_daily_heartbeat cfg clk s1 w1 of
                  (Inl e, w2) \<Rightarrow> (Inl e, w2)
                | (Inr s2, w2) \<Rightarrow>
                    (case scheduled_pass cfg s2 w2 of
                       (Inl e, w3) \<Rightarrow> (Inl e, w3)
                     | (Inr s3, w3) \<Rightarrow> (save_state write_ok s3, w3)))))"

text \<open>
  The condition under which the scheduled pass is said to alert: the scraper returned a
  date, the date is strictly smaller than the current appointment, and its \<^verbatim>\<open>str\<close>
  differs from the \<^verbatim>\<open>str\<close> of the stored \<^verbatim>\<open>last_notified_earliest\<close>.
\<close>

definition alert_due :: "config \<Rightarrow> int option \<Rightarrow> state \<Rightarrow> bool" where
  "alert_due cfg earliest s =
     (case earliest of
        None \<Rightarrow> False
      | Some d \<Rightarrow> d < MY_CURRENT_APPOINTMENT cfg
                  \<and> str_int d \<noteq> py_str (dict_get s ''last_notified_earliest'' PNone))"

text \<open>
  What the scraper is said to return, in the words of the specification: a value is a
  candidate when it is non-empty and purely numeric, that is, made of the decimal digits 0
  to 9; the candidates are read as integers.
\<close>

definition is_decimal_string :: "string \<Rightarrow> bool" where
  "is_decimal_string v = (v \<noteq> [] \<and> list_all is_ascii_digit v)"

fun valid_dates :: "attr_outcome list \<Rightarrow> int list" where
  "valid_dates [] = []"
| "valid_dates (AttrRaises # rest) = valid_dates rest"
| "valid_dates (AttrValue None # rest) = valid_dates rest"
| "valid_dates (AttrValue (Some v) # rest) =
     (if is_decimal_string v then decimal_value v # valid_dates rest else valid_dates rest)"

text \<open>
  A date input is plain when reading it does not raise and, if its value passes
  \<^verbatim>\<open>isdigit\<close>, the value consists of decimal digits only and is within the interpreter's
  bound on digits.
\<close>

fun plain_value :: "attr_outcome \<Rightarrow> bool" where
  "plain_value AttrRaises = False"
| "plain_value (AttrValue None) = True"
| "plain_value (AttrValue (Some v)) =
     (if isdigit v then list_all is_ascii_digit v \<and> length v \<le> int_max_str_digits else True)"

section \<open>Example inputs\<close>

text \<open>A configuration, browser sessions, worlds and clock readings on which the
  theorems below are instantiated.\<close>

definition cfg_ex :: config where
  "cfg_ex = \<lparr>MY_CURRENT_APPOINTMENT = 20260210, BOT_TOKEN = ''token'',
             DEFAULT_CHAT_ID = ''42'', HEARTBEAT_HOUR = 9\<rparr>"

definition cfg_no_recipient :: config where
  "cfg_no_recipient = cfg_ex\<lparr>DEFAULT_CHAT_ID := []\<rparr>"

definition session_ex :: "attr_outcome list \<Rightarrow> session" where
  "session_ex dates =
     \<lparr>launch_raises = False, raises = (\<lambda>st. False), cookie_visible = True,
      date_inputs = dates, close_raises = False\<rparr>"

definition world_ex :: "http_outcome \<Rightarrow> attr_outcome list \<Rightarrow> world" where
  "world_ex r dates =
     \<lparr>net = (\<lambda>k. r), exchanges = [], browser = (\<lambda>k. session_ex dates), scrapes = 0\<rparr>"

definition now_ex :: "int \<Rightarrow> int \<Rightarrow> now_reading" where
  "now_ex h m = \<lparr>today = ''2026-01-15'', hour = h, minute = m, stamp = ''2026-01-15 09:03 CET''\<rparr>"

text \<open>A batch of three updates with the ids 5, 3 and 7: a start request, an update
  without text and a check request.\<close>

definition update_ex :: "int \<Rightarrow> string option \<Rightarrow> update" where
  "update_ex i t = \<lparr>update_id = Some i, msg = Some \<lparr>chat_id = 42, msg_text = t\<rparr>\<rparr>"

definition batch_ex :: "update list" where
  "batch_ex = [update_ex 5 (Some ''/start''), update_ex 3 None, update_ex 7 (Some '' /Check '')]"

text \<open>A session in which exactly one call on the page raises, and a world of such
  sessions.\<close>

definition session_timeout :: "step \<Rightarrow> session" where
  "session_timeout st =
     \<lparr>launch_raises = False, raises = (\<lambda>x. x = st), cookie_visible = False,
      date_inputs = [AttrValue (Some ''20260201'')], close_raises = False\<rparr>"

definition world_timeout :: "step \<Rightarrow> world" where
  "world_timeout st =
     \<lparr>net = (\<lambda>k. ConnError), exchanges = [], browser = (\<lambda>k. session_timeout st), scrapes = 0\<rparr>"

section \<open>Effects on the world, and which calls can raise\<close>

text \<open>No operation changes how the browser sessions behave; they only count them.\<close>

lemma tg_api_browser [simp]: "browser (snd (tg_api cfg req w)) = browser w"
  by (simp add: tg_api_def Let_def split: http_outcome.splits body.splits)

lemma send_telegram_ok [simp]: "fst (send_telegram cfg chat t w) = Inr ()"
  by (simp add: send_telegram_def split: prod.splits sum.splits)

lemma send_telegram_browser [simp]: "browser (snd (send_telegram cfg chat t w)) = browser w"
proof (cases "chat = []")
  case True
  then show ?thesis by (simp add: send_telegram_def)
next
  case False
  obtain r w' where r: "tg_api cfg (SendMessage chat t) w = (r, w')" by (cases "tg_api cfg (SendMessage chat t) w")
  have "browser w' = browser w" using tg_api_browser [of cfg "SendMessage chat t" w] r by simp
  with False r show ?thesis by (cases r) (simp_all add: send_telegram_def)
qed

lemma check_browser [simp]: "browser (snd (check_for_appointments w)) = browser w"
  by (simp add: check_for_appointments_def Let_def)

lemma check_ok:
  assumes "\<not> launch_raises (browser w (scrapes w))" "\<not> close_raises (browser w (scrapes w))"
  shows "\<exists>r. fst (check_for_appointments w) = Inr r"
  using assms by (simp add: check_for_appointments_def Let_def split: sum.splits)


lemma handle_message_browser [simp]: "browser (snd (handle_message cfg u w)) = browser w"
proof (cases "msg u")
  case None
  then show ?thesis by (simp add: handle_message_def)
next
  case (Some ms)
  obtain r w1 where c: "check_for_appointments w = (r, w1)" by (cases "check_for_appointments w")
  have b1: "browser w1 = browser w" using check_browser [of w] c by simp
  have b2: "\<And>ch t. browser (snd (send_telegram cfg ch t w1)) = browser w" using b1 by simp
  show ?thesis
    using Some c b1 b2
    by (cases r) (simp_all add: handle_message_def Let_def)
qed

lemma handle_message_ok:
  assumes "\<not> launch_raises (browser w (scrapes w))" "\<not> close_raises (browser w (scrapes w))"
  shows "fst (handle_message cfg u w) = Inr ()"
proof (cases "msg u")
  case None
  then show ?thesis by (simp add: handle_message_def)
next
  case (Some ms)
  obtain r w1 where c: "check_for_appointments w = (r, w1)" by (cases "check_for_appointments w")
  from check_ok [OF assms] c obtain v where v: "r = Inr v" by auto
  show ?thesis
    using Some c v by (simp add: handle_message_def Let_def)
qed

lemma handle_updates_browser [simp]: "browser (snd (handle_updates cfg us m w)) = browser w"
proof (induction us arbitrary: m w)
  case Nil
  then show ?case by simp
next
  case (Cons u us)
  obtain r w1 where h: "handle_message cfg u w = (r, w1)" by (cases "handle_message cfg u w")
  have b1: "browser w1 = browser w" using handle_message_browser [of cfg u w] h by simp
  show ?case
  proof (cases r)
    case (Inl e)
    with h b1 show ?thesis by (simp add: Let_def)
  next
    case (Inr x)
    with h b1 Cons.IH show ?thesis by (simp add: Let_def)
  qed
qed

lemma handle_updates_ok:
  assumes "\<And>k. \<not> launch_raises (browser w k)" "\<And>k. \<not> close_raises (browser w k)"
  shows "\<exists>r. fst (handle_updates cfg us m w) = Inr r"
  using assms
proof (induction us arbitrary: m w)
  case Nil
  then show ?case by simp
next
  case (Cons u us)
  obtain r w1 where h: "handle_message cfg u w = (r, w1)" by (cases "handle_message cfg u w")
  have b1: "browser w1 = browser w" using handle_message_browser [of cfg u w] h by simp
  have r: "r = Inr ()" using handle_message_ok [of w cfg u] Cons.prems h by simp
  have "\<exists>r. fst (handle_updates cfg us m' w1) = Inr r" for m'
    using Cons.IH [of w1 m'] Cons.prems b1 by simp
  then show ?case using h r by (simp add: Let_def)
qed

lemma process_browser [simp]: "browser (snd (process_incoming_commands cfg s w)) = browser w"
proof (cases "dict_get s ''last_update_id'' (PInt 0)")
  case PNone
  then show ?thesis by (simp add: process_incoming_commands_def)
next
  case (PStr x)
  then show ?thesis by (simp add: process_incoming_commands_def)
next
  case (PInt n)
  obtain r w1 where t: "tg_api cfg (GetUpdates (n + 1)) w = (r, w1)"
    by (cases "tg_api cfg (GetUpdates (n + 1)) w")
  have b1: "browser w1 = browser w" using tg_api_browser [of cfg "GetUpdates (n + 1)" w] t by simp
  show ?thesis
  proof (cases r)
    case (Inl e)
    with PInt t b1 show ?thesis by (simp add: process_incoming_commands_def)
  next
    case (Inr resp)
    obtain q w2 where h: "handle_updates cfg (result_of resp) n w1 = (q, w2)"
      by (cases "handle_updates cfg (result_of resp) n w1")
    have b2: "browser w2 = browser w"
      using handle_updates_browser [of cfg "result_of resp" n w1] h b1 by simp
    from PInt t Inr h b1 b2 show ?thesis
      by (cases q) (simp_all add: process_incoming_commands_def Let_def)
  qed
qed

lemma process_ok:
  assumes "\<And>k. \<not> launch_raises (browser w k)" "\<And>k. \<not> close_raises (browser w k)"
  shows "\<exists>s'. fst (process_incoming_commands cfg s w) = Inr s'"
proof (cases "dict_get s ''last_update_id'' (PInt 0)")
  case PNone
  then show ?thesis by (simp add: process_incoming_commands_def)
next
  case (PStr x)
  then show ?thesis by (simp add: process_incoming_commands_def)
next
  case (PInt n)
  obtain r w1 where t: "tg_api cfg (GetUpdates (n + 1)) w = (r, w1)"
    by (cases "tg_api cfg (GetUpdates (n + 1)) w")
  have b1: "browser w1 = browser w" using tg_api_browser [of cfg "GetUpdates (n + 1)" w] t by simp
  show ?thesis
  proof (cases r)
    case (Inl e)
    with PInt t show ?thesis by (simp add: process_incoming_commands_def)
  next
    case (Inr resp)
    obtain q w2 where h: "handle_updates cfg (result_of resp) n w1 = (q, w2)"
      by (cases "handle_updates cfg (result_of resp) n w1")
    from handle_updates_ok [of w1 cfg "result_of resp" n] assms b1 h
    obtain m where "q = Inr m" by auto
    with PInt t Inr h show ?thesis
      by (simp add: process_incoming_commands_def Let_def)
  qed
qed

lemma heartbeat_browser [simp]:
  "browser (snd (maybe_send_daily_heartbeat cfg clk s w)) = browser w"
proof (cases clk)
  case ClockRaises
  then show ?thesis by (simp add: maybe_send_daily_heartbeat_def)
next
  case (Now n)
  obtain r w1 where t: "send_telegram cfg (DEFAULT_CHAT_ID cfg) (HeartbeatText (stamp n)) w = (r, w1)"
    by (cases "send_telegram cfg (DEFAULT_CHAT_ID cfg) (HeartbeatText (stamp n)) w")
  have "browser w1 = browser w"
    using send_telegram_browser [of cfg "DEFAULT_CHAT_ID cfg" "HeartbeatText (stamp n)" w] t by simp
  with Now t show ?thesis
    by (cases r) (simp_all add: maybe_send_daily_heartbeat_def Let_def)
qed

lemma heartbeat_ok:
  "\<exists>s'. fst (maybe_send_daily_heartbeat cfg (Now n) s w) = Inr s'"
proof -
  obtain r w1 where t: "send_telegram cfg (DEFAULT_CHAT_ID cfg) (HeartbeatText (stamp n)) w = (r, w1)"
    by (cases "send_telegram cfg (DEFAULT_CHAT_ID cfg) (HeartbeatText (stamp n)) w")
  have "r = Inr ()"
    using send_telegram_ok [of cfg "DEFAULT_CHAT_ID cfg" "HeartbeatText (stamp n)" w] t by simp
  with t show ?thesis
    by (simp add: maybe_send_daily_heartbeat_def Let_def)
qed

lemma notify_ok: "\<exists>s'. fst (notify_if_earlier cfg earliest s w) = Inr s'"
proof (cases earliest)
  case None
  then show ?thesis by (simp add: notify_if_earlier_def)
next
  case (Some d)
  obtain r w1 where t:
    "send_telegram cfg (DEFAULT_CHAT_ID cfg) (EarlierAlert d (MY_CURRENT_APPOINTMENT cfg)) w = (r, w1)"
    by (cases "send_telegram cfg (DEFAULT_CHAT_ID cfg) (EarlierAlert d (MY_CURRENT_APPOINTMENT cfg)) w")
  have "r = Inr ()"
    using send_telegram_ok [of cfg "DEFAULT_CHAT_ID cfg" "EarlierAlert d (MY_CURRENT_APPOINTMENT cfg)" w] t
    by simp
  with Some t show ?thesis
    by (simp add: notify_if_earlier_def Let_def)
qed

lemma scheduled_pass_ok:
  assumes "\<not> launch_raises (browser w (scrapes w))" "\<not> close_raises (browser w (scrapes w))"
  shows "\<exists>s'. fst (scheduled_pass cfg s w) = Inr s'"
proof -
  obtain r w1 where c: "check_for_appointments w = (r, w1)" by (cases "check_for_appointments w")
  from check_ok [OF assms] c obtain v where "r = Inr v" by auto
  with c notify_ok [of cfg v s w1] show ?thesis
    by (simp add: scheduled_pass_def)
qed

lemma main_saves:
  assumes tok: "BOT_TOKEN cfg \<noteq> []"
    and ld: "load_state f = Inr (LDict s0)"
    and l: "\<And>k. \<not> launch_raises (browser w k)"
    and c: "\<And>k. \<not> close_raises (browser w k)"
  shows "\<exists>s'. fst (main cfg f (Now n) True w) = Inr s'"
proof -
  obtain r1 w1 where p: "process_incoming_commands cfg s0 w = (r1, w1)"
    by (cases "process_incoming_commands cfg s0 w")
  from process_ok [of w cfg s0] l c p obtain s1 where r1: "r1 = Inr s1" by auto
  have b1: "browser w1 = browser w" using process_browser [of cfg s0 w] p by simp
  obtain r2 w2 where h: "maybe_send_daily_heartbeat cfg (Now n) s1 w1 = (r2, w2)"
    by (cases "maybe_send_daily_heartbeat cfg (Now n) s1 w1")
  from heartbeat_ok [of cfg n s1 w1] h obtain s2 where r2: "r2 = Inr s2" by auto
  have b2: "browser w2 = browser w" using heartbeat_browser [of cfg "Now n" s1 w1] h b1 by simp
  obtain r3 w3 where sp: "scheduled_pass cfg s2 w2 = (r3, w3)"
    by (cases "scheduled_pass cfg s2 w2")
  from scheduled_pass_ok [of w2 cfg s2] l c b2 sp obtain s3 where r3: "r3 = Inr s3" by auto
  show ?thesis
    using tok ld p r1 h r2 sp r3 by (simp add: main_def save_state_def)
qed

lemma sent_append [simp]: "sent (w\<lparr>exchanges := exchanges w @ [x]\<rparr>) = sent w @ sent_of x"
  by (simp add: sent_def)

lemma delivered_append [simp]:
  "delivered (w\<lparr>exchanges := exchanges w @ [x]\<rparr>) = delivered w @ delivered_of x"
  by (simp add: delivered_def)

lemma send_telegram_sent:
  "sent (snd (send_telegram cfg chat t w)) =
     sent w @ (if chat \<noteq> [] \<and> BOT_TOKEN cfg \<noteq> [] then [(chat, t)] else [])"
  by (simp add: send_telegram_def tg_api_def Let_def split: http_outcome.splits body.splits)

lemma heartbeat_unfold:
  "maybe_send_daily_heartbeat cfg (Now n) s w =
     (if DEFAULT_CHAT_ID cfg \<noteq> [] \<and> dict_get s ''last_ping_date'' PNone \<noteq> PStr (today n)
         \<and> hour n = HEARTBEAT_HOUR cfg \<and> minute n < HEARTBEAT_WINDOW_MINUTES
      then (Inr (s(''last_ping_date'' \<mapsto> PStr (today n))),
            snd (send_telegram cfg (DEFAULT_CHAT_ID cfg) (HeartbeatText (stamp n)) w))
      else (Inr s, w))"
proof -
  obtain r w1 where t: "send_telegram cfg (DEFAULT_CHAT_ID cfg) (HeartbeatText (stamp n)) w = (r, w1)"
    by (cases "send_telegram cfg (DEFAULT_CHAT_ID cfg) (HeartbeatText (stamp n)) w")
  have "r = Inr ()"
    using send_telegram_ok [of cfg "DEFAULT_CHAT_ID cfg" "HeartbeatText (stamp n)" w] t by simp
  with t show ?thesis
    by (simp add: maybe_send_daily_heartbeat_def Let_def)
qed

section \<open>Heartbeat: when it is sent\<close>

text \<open>
  Claim C7. \<^verbatim>\<open>maybe_send_daily_heartbeat\<close> sends nothing and returns the state and the
  world as they were whenever the default recipient is empty, or the local hour differs
  from \<^verbatim>\<open>HEARTBEAT_HOUR\<close>, or the minute is not below \<^verbatim>\<open>HEARTBEAT_WINDOW_MINUTES\<close>.
  Whenever a send request is issued, the recipient is configured, the hour and minute are
  inside the window and the stored \<^verbatim>\<open>last_ping_date\<close> is not today. When all these hold
  (and the bot token is present, as \<^verbatim>\<open>main\<close> requires), exactly the heartbeat is sent to
  the default recipient and today is recorded.
\<close>

theorem heartbeat_window:
  "(DEFAULT_CHAT_ID cfg = [] \<or> hour n \<noteq> HEARTBEAT_HOUR cfg
      \<or> \<not> minute n < HEARTBEAT_WINDOW_MINUTES
      \<longrightarrow> maybe_send_daily_heartbeat cfg (Now n) s w = (Inr s, w))
   \<and> (sent (snd (maybe_send_daily_heartbeat cfg (Now n) s w)) \<noteq> sent w
      \<longrightarrow> DEFAULT_CHAT_ID cfg \<noteq> [] \<and> hour n = HEARTBEAT_HOUR cfg
          \<and> minute n < HEARTBEAT_WINDOW_MINUTES
          \<and> dict_get s ''last_ping_date'' PNone \<noteq> PStr (today n))
   \<and> (DEFAULT_CHAT_ID cfg \<noteq> [] \<and> BOT_TOKEN cfg \<noteq> [] \<and> hour n = HEARTBEAT_HOUR cfg
        \<and> minute n < HEARTBEAT_WINDOW_MINUTES
        \<and> dict_get s ''last_ping_date'' PNone \<noteq> PStr (today n)
      \<longrightarrow> fst (maybe_send_daily_heartbeat cfg (Now n) s w)
            = Inr (s(''last_ping_date'' \<mapsto> PStr (today n)))
          \<and> sent (snd (maybe_send_daily_heartbeat cfg (Now n) s w))
            = sent w @ [(DEFAULT_CHAT_ID cfg, HeartbeatText (stamp n))])"
  by (auto simp: heartbeat_unfold send_telegram_sent)

theorem heartbeat_window_witness:
  "maybe_send_daily_heartbeat cfg_ex (Now (now_ex 10 3)) Map.empty (world_ex ConnError [])
     = (Inr Map.empty, world_ex ConnError [])
   \<and> sent (snd (maybe_send_daily_heartbeat cfg_ex (Now (now_ex 9 3)) Map.empty
                  (world_ex ConnError [])))
     = [(''42'', HeartbeatText ''2026-01-15 09:03 CET'')]
   \<and> fst (maybe_send_daily_heartbeat cfg_ex (Now (now_ex 9 3)) Map.empty (world_ex ConnError []))
     = Inr [''last_ping_date'' \<mapsto> PStr ''2026-01-15'']"
  using heartbeat_window [of cfg_ex "now_ex 10 3" Map.empty "world_ex ConnError []"]
    heartbeat_window [of cfg_ex "now_ex 9 3" Map.empty "world_ex ConnError []"]
  by (simp add: cfg_ex_def now_ex_def world_ex_def sent_def dict_get_def
      HEARTBEAT_WINDOW_MINUTES_def)

text \<open>
  Claim C6. For two invocations on the same local date, both inside the send window, the
  second running on the state the first returned. The first returns normally; when a
  recipient is configured and today is not yet recorded, it sets \<^verbatim>\<open>last_ping_date\<close> to
  today and (with the bot token present, as \<^verbatim>\<open>main\<close> requires) issues exactly one send,
  the heartbeat to the default recipient; otherwise it sends nothing and leaves the state
  as it is. With a recipient configured, the state it returns records today in either
  case. The second invocation, in whatever world it runs, sees that date, sends nothing
  and returns the state unchanged.
\<close>

theorem heartbeat_once_per_day:
  assumes "hour n1 = HEARTBEAT_HOUR cfg" "minute n1 < HEARTBEAT_WINDOW_MINUTES"
    and "hour n2 = HEARTBEAT_HOUR cfg" "minute n2 < HEARTBEAT_WINDOW_MINUTES"
    and "today n2 = today n1"
  shows "\<exists>s1 w1. maybe_send_daily_heartbeat cfg (Now n1) s w = (Inr s1, w1)
           \<and> s1 = (if DEFAULT_CHAT_ID cfg \<noteq> []
                       \<and> dict_get s ''last_ping_date'' PNone \<noteq> PStr (today n1)
                    then s(''last_ping_date'' \<mapsto> PStr (today n1)) else s)
           \<and> sent w1 = sent w @
                (if DEFAULT_CHAT_ID cfg \<noteq> [] \<and> BOT_TOKEN cfg \<noteq> []
                    \<and> dict_get s ''last_ping_date'' PNone \<noteq> PStr (today n1)
                 then [(DEFAULT_CHAT_ID cfg, HeartbeatText (stamp n1))] else [])
           \<and> (DEFAULT_CHAT_ID cfg \<noteq> [] \<longrightarrow>
                dict_get s1 ''last_ping_date'' PNone = PStr (today n1))
           \<and> length (sent w1) \<le> Suc (length (sent w))
           \<and> (\<forall>w2. maybe_send_daily_heartbeat cfg (Now n2) s1 w2 = (Inr s1, w2))"
  using assms by (simp add: heartbeat_unfold send_telegram_sent dict_get_def)

theorem heartbeat_once_per_day_witness:
  "\<exists>w1. maybe_send_daily_heartbeat cfg_ex (Now (now_ex 9 3)) Map.empty
              (world_ex (Response True (JsonObject None)) [])
            = (Inr [''last_ping_date'' \<mapsto> PStr ''2026-01-15''], w1)
         \<and> sent w1 = [(''42'', HeartbeatText ''2026-01-15 09:03 CET'')]
         \<and> dict_get [''last_ping_date'' \<mapsto> PStr ''2026-01-15''] ''last_ping_date'' PNone
             = PStr ''2026-01-15''
         \<and> (\<forall>w2. maybe_send_daily_heartbeat cfg_ex (Now (now_ex 9 8))
                     [''last_ping_date'' \<mapsto> PStr ''2026-01-15''] w2
                   = (Inr [''last_ping_date'' \<mapsto> PStr ''2026-01-15''], w2))"
proof -
  from heartbeat_once_per_day [of "now_ex 9 3" cfg_ex "now_ex 9 8" Map.empty
      "world_ex (Response True (JsonObject None)) []"]
  have "\<exists>w1. maybe_send_daily_heartbeat cfg_ex (Now (now_ex 9 3)) Map.empty
              (world_ex (Response True (JsonObject None)) [])
            = (Inr [''last_ping_date'' \<mapsto> PStr ''2026-01-15''], w1)
         \<and> sent w1 = [(''42'', HeartbeatText ''2026-01-15 09:03 CET'')]
         \<and> length (sent w1) \<le> Suc 0
         \<and> (\<forall>w2. maybe_send_daily_heartbeat cfg_ex (Now (now_ex 9 8))
                     [''last_ping_date'' \<mapsto> PStr ''2026-01-15''] w2
                   = (Inr [''last_ping_date'' \<mapsto> PStr ''2026-01-15''], w2))"
    by (simp add: cfg_ex_def now_ex_def world_ex_def sent_def dict_get_def
        HEARTBEAT_WINDOW_MINUTES_def)
  moreover have "dict_get [''last_ping_date'' \<mapsto> PStr ''2026-01-15''] ''last_ping_date'' PNone
             = PStr ''2026-01-15''"
    by (simp add: dict_get_def)
  ultimately show ?thesis by blast
qed

lemma send_telegram_delivered_failed:
  assumes "BOT_TOKEN cfg = [] \<or> net w (length (exchanges w)) = ConnError
           \<or> net w (length (exchanges w)) = Response False b"
  shows "delivered (snd (send_telegram cfg chat t w)) = delivered w"
  using assms
  by (auto simp: send_telegram_def tg_api_def Let_def split: http_outcome.splits body.splits)

text \<open>
  Claim C10. When the conditions for sending hold and the send request fails (no token,
  a raised request, or a response that is not ok), \<^verbatim>\<open>last_ping_date\<close> is still set to
  today and no message is delivered; every later invocation on the same date, at whatever
  time and in whatever world, sends nothing and returns the state unchanged, so the
  heartbeat is not retried that day.
\<close>

theorem heartbeat_recorded_when_delivery_fails:
  assumes "DEFAULT_CHAT_ID cfg \<noteq> []"
    and "hour n = HEARTBEAT_HOUR cfg" "minute n < HEARTBEAT_WINDOW_MINUTES"
    and "dict_get s ''last_ping_date'' PNone \<noteq> PStr (today n)"
    and "BOT_TOKEN cfg = [] \<or> net w (length (exchanges w)) = ConnError
           \<or> net w (length (exchanges w)) = Response False b"
  shows "\<exists>w1. maybe_send_daily_heartbeat cfg (Now n) s w
                 = (Inr (s(''last_ping_date'' \<mapsto> PStr (today n))), w1)
           \<and> delivered w1 = delivered w
           \<and> (\<forall>n2 w2. today n2 = today n \<longrightarrow>
                 maybe_send_daily_heartbeat cfg (Now n2) (s(''last_ping_date'' \<mapsto> PStr (today n))) w2
                   = (Inr (s(''last_ping_date'' \<mapsto> PStr (today n))), w2))"
  using assms send_telegram_delivered_failed [of cfg w b "DEFAULT_CHAT_ID cfg" "HeartbeatText (stamp n)"]
  by (simp add: heartbeat_unfold dict_get_def)

theorem heartbeat_recorded_when_delivery_fails_witness:
  "\<exists>w1. maybe_send_daily_heartbeat cfg_ex (Now (now_ex 9 3)) Map.empty (world_ex ConnError [])
                 = (Inr [''last_ping_date'' \<mapsto> PStr ''2026-01-15''], w1)
           \<and> delivered w1 = []
           \<and> (\<forall>w2. maybe_send_daily_heartbeat cfg_ex (Now (now_ex 9 8))
                       [''last_ping_date'' \<mapsto> PStr ''2026-01-15''] w2
                   = (Inr [''last_ping_date'' \<mapsto> PStr ''2026-01-15''], w2))"
proof -
  have d: "delivered (world_ex ConnError []) = []"
    by (simp add: delivered_def world_ex_def)
  have t: "today (now_ex 9 8) = today (now_ex 9 3)" by (simp add: now_ex_def)
  from heartbeat_recorded_when_delivery_fails
      [of cfg_ex "now_ex 9 3" Map.empty "world_ex ConnError []" NotJson]
  obtain w1 where w1:
    "maybe_send_daily_heartbeat cfg_ex (Now (now_ex 9 3)) Map.empty (world_ex ConnError [])
       = (Inr [''last_ping_date'' \<mapsto> PStr (today (now_ex 9 3))], w1)"
    "delivered w1 = delivered (world_ex ConnError [])"
    "\<forall>n2 w2. today n2 = today (now_ex 9 3) \<longrightarrow>
       maybe_send_daily_heartbeat cfg_ex (Now n2) [''last_ping_date'' \<mapsto> PStr (today (now_ex 9 3))] w2
         = (Inr [''last_ping_date'' \<mapsto> PStr (today (now_ex 9 3))], w2)"
    by (auto simp: cfg_ex_def now_ex_def world_ex_def dict_get_def HEARTBEAT_WINDOW_MINUTES_def)
  from w1(3) t have "\<forall>w2. maybe_send_daily_heartbeat cfg_ex (Now (now_ex 9 8))
       [''last_ping_date'' \<mapsto> PStr (today (now_ex 9 3))] w2
         = (Inr [''last_ping_date'' \<mapsto> PStr (today (now_ex 9 3))], w2)"
    by blast
  with w1(1,2) d show ?thesis by (simp add: now_ex_def)
qed

section \<open>Command processor: a failed poll\<close>

lemma tg_api_sent_get_updates [simp]:
  "sent (snd (tg_api cfg (GetUpdates k) w)) = sent w"
  by (simp add: tg_api_def Let_def split: http_outcome.splits body.splits)

text \<open>
  Claim C5. If the \<^verbatim>\<open>getUpdates\<close> call raises (for the offset, the stored
  \<^verbatim>\<open>last_update_id\<close> plus one), \<^verbatim>\<open>process_incoming_commands\<close> returns normally with
  the state unchanged, having sent nothing and run no scrape; the next invocation
  therefore computes the same offset.
\<close>

theorem poll_failure_keeps_state:
  assumes "dict_get s ''last_update_id'' (PInt 0) = PInt n"
    and "fst (tg_api cfg (GetUpdates (n + 1)) w) = Inl e"
  shows "fst (process_incoming_commands cfg s w) = Inr s
         \<and> sent (snd (process_incoming_commands cfg s w)) = sent w
         \<and> scrapes (snd (process_incoming_commands cfg s w)) = scrapes w"
proof -
  obtain r w1 where t: "tg_api cfg (GetUpdates (n + 1)) w = (r, w1)"
    by (cases "tg_api cfg (GetUpdates (n + 1)) w")
  with assms(2) have r: "r = Inl e" by simp
  have "sent w1 = sent w" using tg_api_sent_get_updates [of cfg "n + 1" w] t by simp
  moreover have "scrapes w1 = scrapes w"
    using t by (auto simp: tg_api_def Let_def split: if_splits http_outcome.splits body.splits)
  ultimately show ?thesis
    using assms(1) t r by (simp add: process_incoming_commands_def)
qed

theorem poll_failure_keeps_state_witness:
  "fst (process_incoming_commands cfg_ex [''last_update_id'' \<mapsto> PInt 7] (world_ex ConnError []))
     = Inr [''last_update_id'' \<mapsto> PInt 7]
   \<and> sent (snd (process_incoming_commands cfg_ex [''last_update_id'' \<mapsto> PInt 7]
                  (world_ex ConnError []))) = []
   \<and> scrapes (snd (process_incoming_commands cfg_ex [''last_update_id'' \<mapsto> PInt 7]
                  (world_ex ConnError []))) = 0"
  using poll_failure_keeps_state [of "[''last_update_id'' \<mapsto> PInt 7]" 7 cfg_ex
      "world_ex ConnError []" RequestException]
  by (simp add: dict_get_def tg_api_def cfg_ex_def world_ex_def sent_def)

section \<open>Notifier: failures stay inside\<close>

lemma tg_api_raises:
  assumes "BOT_TOKEN cfg = [] \<or> net w (length (exchanges w)) = ConnError
           \<or> net w (length (exchanges w)) = Response False b
           \<or> net w (length (exchanges w)) = Response True NotJson"
  shows "\<exists>e. fst (tg_api cfg req w) = Inl e"
  using assms by (auto simp: tg_api_def Let_def)

text \<open>
  Claim C9. \<^verbatim>\<open>send_telegram\<close> with an empty recipient returns at once, leaving the world
  as it was. With any recipient it returns normally: when the request raises or the
  response is not ok, \<^verbatim>\<open>tg_api\<close> raises and \<^verbatim>\<open>send_telegram\<close> still returns normally.
  Hence, with the token present, the state file loaded as a dictionary, the time zone
  found and browser sessions that start and close, \<^verbatim>\<open>main\<close> runs through to the save
  whether the requests to the messaging API succeed or fail.
\<close>

theorem send_telegram_contains_errors:
  assumes "BOT_TOKEN cfg \<noteq> []"
    and "load_state f = Inr (LDict s0)"
    and "\<And>k. \<not> launch_raises (browser w k)"
    and "\<And>k. \<not> close_raises (browser w k)"
    and "net w (length (exchanges w)) = ConnError
         \<or> net w (length (exchanges w)) = Response False b"
  shows "(\<exists>e. fst (tg_api cfg (SendMessage chat t) w) = Inl e)
         \<and> fst (send_telegram cfg chat t w) = Inr ()
         \<and> send_telegram cfg [] t w = (Inr (), w)
         \<and> (\<exists>s'. fst (main cfg f (Now n) True w) = Inr s')"
proof -
  have 1: "\<exists>e. fst (tg_api cfg (SendMessage chat t) w) = Inl e"
    using assms(5) tg_api_raises [of cfg w b "SendMessage chat t"] by blast
  have 2: "fst (send_telegram cfg chat t w) = Inr ()" by (rule send_telegram_ok)
  have 3: "send_telegram cfg [] t w = (Inr (), w)" by (simp add: send_telegram_def)
  from 1 2 3 main_saves [OF assms(1-4), of n] show ?thesis by blast
qed

theorem send_telegram_contains_errors_witness:
  "fst (send_telegram cfg_ex ''42'' StartHint (world_ex ConnError [])) = Inr ()
   \<and> fst (send_telegram cfg_ex ''42'' StartHint (world_ex (Response False NotJson) [])) = Inr ()
   \<and> send_telegram cfg_ex [] StartHint (world_ex ConnError []) = (Inr (), world_ex ConnError [])
   \<and> (\<exists>s'. fst (main cfg_ex FileMissing (Now (now_ex 9 3)) True
                  (world_ex ConnError [AttrValue (Some ''20260201'')])) = Inr s')"
proof -
  have a: "BOT_TOKEN cfg_ex \<noteq> []" by (simp add: cfg_ex_def)
  have b: "load_state FileMissing = Inr (LDict Map.empty)" by (simp add: load_state_def)
  have c: "\<And>k. \<not> launch_raises (browser (world_ex ConnError [AttrValue (Some ''20260201'')]) k)"
    by (simp add: world_ex_def session_ex_def)
  have d: "\<And>k. \<not> close_raises (browser (world_ex ConnError [AttrValue (Some ''20260201'')]) k)"
    by (simp add: world_ex_def session_ex_def)
  have e: "\<And>k. \<not> launch_raises (browser (world_ex ConnError []) k)"
    by (simp add: world_ex_def session_ex_def)
  have g: "\<And>k. \<not> close_raises (browser (world_ex ConnError []) k)"
    by (simp add: world_ex_def session_ex_def)
  have h: "\<And>k. \<not> launch_raises (browser (world_ex (Response False NotJson) []) k)"
    by (simp add: world_ex_def session_ex_def)
  have i: "\<And>k. \<not> close_raises (browser (world_ex (Response False NotJson) []) k)"
    by (simp add: world_ex_def session_ex_def)
  have n1: "net (world_ex ConnError [AttrValue (Some ''20260201'')])
              (length (exchanges (world_ex ConnError [AttrValue (Some ''20260201'')]))) = ConnError
            \<or> net (world_ex ConnError [AttrValue (Some ''20260201'')])
              (length (exchanges (world_ex ConnError [AttrValue (Some ''20260201'')])))
              = Response False NotJson"
    by (simp add: world_ex_def)
  have n2: "net (world_ex ConnError []) (length (exchanges (world_ex ConnError []))) = ConnError
            \<or> net (world_ex ConnError []) (length (exchanges (world_ex ConnError [])))
              = Response False NotJson"
    by (simp add: world_ex_def)
  have n3: "net (world_ex (Response False NotJson) [])
              (length (exchanges (world_ex (Response False NotJson) []))) = ConnError
            \<or> net (world_ex (Response False NotJson) [])
              (length (exchanges (world_ex (Response False NotJson) []))) = Response False NotJson"
    by (simp add: world_ex_def)
  from send_telegram_contains_errors [OF a b c d n1, of "''42''" StartHint "now_ex 9 3"]
    send_telegram_contains_errors [OF a b e g n2, of "''42''" StartHint "now_ex 9 3"]
    send_telegram_contains_errors [OF a b h i n3, of "''42''" StartHint "now_ex 9 3"]
  show ?thesis by simp
qed

section \<open>State store: a file that cannot be read\<close>

lemma load_state_returns: "\<exists>v. load_state f = Inr v"
  by (simp add: load_state_def split: sum.splits)

text \<open>
  Claim C8. \<^verbatim>\<open>load_state\<close> never raises, and when opening or decoding the state file
  raises (missing file, unreadable file, corrupt content) it returns the empty dictionary.
  On the empty dictionary the three reads give their defaults (\<^verbatim>\<open>last_update_id\<close> 0, no
  \<^verbatim>\<open>last_ping_date\<close>, \<^verbatim>\<open>str\<close> of the absent \<^verbatim>\<open>last_notified_earliest\<close> the text
  \<^verbatim>\<open>None\<close>); \<^verbatim>\<open>main\<close> then behaves as on a file holding the empty dictionary and, with the
  token present, the time zone found and browser sessions that start and close, runs
  through to the save without raising.
\<close>

theorem load_state_failure_gives_empty:
  assumes "read_state_file f = Inl e"
    and "BOT_TOKEN cfg \<noteq> []"
    and "\<And>k. \<not> launch_raises (browser w k)"
    and "\<And>k. \<not> close_raises (browser w k)"
  shows "load_state f = Inr (LDict Map.empty)
         \<and> (\<exists>v. load_state f' = Inr v)
         \<and> dict_get Map.empty ''last_update_id'' (PInt 0) = PInt 0
         \<and> dict_get Map.empty ''last_ping_date'' PNone = PNone
         \<and> py_str (dict_get Map.empty ''last_notified_earliest'' PNone) = ''None''
         \<and> main cfg f clk ok w = main cfg (Decoded (LDict Map.empty)) clk ok w
         \<and> (\<exists>s'. fst (main cfg f (Now n) True w) = Inr s')"
proof -
  have 1: "load_state f = Inr (LDict Map.empty)"
    using assms(1) by (simp add: load_state_def)
  have 2: "load_state (Decoded (LDict Map.empty)) = Inr (LDict Map.empty)"
    by (simp add: load_state_def)
  have 3: "main cfg f clk ok w = main cfg (Decoded (LDict Map.empty)) clk ok w"
    unfolding main_def 1 2 ..
  from 1 3 load_state_returns [of f'] main_saves [OF assms(2) 1 assms(3,4), of n]
  show ?thesis by (simp add: dict_get_def)
qed

theorem load_state_failure_gives_empty_witness:
  "load_state FileMissing = Inr (LDict Map.empty)
   \<and> load_state Corrupt = Inr (LDict Map.empty)
   \<and> (\<exists>s'. fst (main cfg_ex FileMissing (Now (now_ex 9 3)) True
                  (world_ex (Response True (JsonObject None)) [])) = Inr s')
   \<and> (\<exists>s'. fst (main cfg_ex Corrupt (Now (now_ex 9 3)) True
                  (world_ex (Response True (JsonObject None)) [])) = Inr s')"
proof -
  have a: "read_state_file FileMissing = Inl OSError" by simp
  have b: "read_state_file Corrupt = Inl JSONDecodeError" by simp
  have t: "BOT_TOKEN cfg_ex \<noteq> []" by (simp add: cfg_ex_def)
  have l: "\<And>k. \<not> launch_raises (browser (world_ex (Response True (JsonObject None)) []) k)"
    by (simp add: world_ex_def session_ex_def)
  have c: "\<And>k. \<not> close_raises (browser (world_ex (Response True (JsonObject None)) []) k)"
    by (simp add: world_ex_def session_ex_def)
  from load_state_failure_gives_empty [OF a t l c, of FileMissing "Now (now_ex 9 3)" True "now_ex 9 3"]
    load_state_failure_gives_empty [OF b t l c, of Corrupt "Now (now_ex 9 3)" True "now_ex 9 3"]
  show ?thesis by blast
qed

section \<open>Command processor: the stored offset\<close>

lemma batch_ids_Cons:
  "batch_ids (u # us) = (case update_id u of None \<Rightarrow> batch_ids us | Some i \<Rightarrow> i # batch_ids us)"
  by (simp add: batch_ids_def List.map_filter_simps split: option.splits)

lemma handle_updates_fold:
  "handle_updates cfg us m w = (Inr m', w') \<Longrightarrow> m' = fold max (batch_ids us) m"
proof (induction us arbitrary: m w)
  case Nil
  then show ?case by (simp add: batch_ids_def List.map_filter_simps)
next
  case (Cons u us)
  obtain r w1 where h: "handle_message cfg u w = (r, w1)" by (cases "handle_message cfg u w")
  show ?case
  proof (cases r)
    case (Inl e)
    with Cons.prems h show ?thesis by (simp add: Let_def)
  next
    case (Inr x)
    show ?thesis
    proof (cases "update_id u")
      case None
      with Cons.prems h Inr have "handle_updates cfg us m w1 = (Inr m', w')"
        by (simp add: Let_def)
      from Cons.IH [OF this] None show ?thesis by (simp add: batch_ids_Cons)
    next
      case (Some i)
      with Cons.prems h Inr have "handle_updates cfg us (max m i) w1 = (Inr m', w')"
        by (simp add: Let_def)
      from Cons.IH [OF this] Some show ?thesis by (simp add: batch_ids_Cons max.commute)
    qed
  qed
qed

lemma handle_updates_Max:
  assumes "handle_updates cfg us m w = (Inr m', w')"
  shows "m' = Max (insert m (set (batch_ids us)))"
proof -
  have "Max (set (m # batch_ids us)) = fold max (batch_ids us) m"
    by (rule Max.set_eq_fold)
  with handle_updates_fold [OF assms] show ?thesis by simp
qed

text \<open>
  Claim C4. When the stored \<^verbatim>\<open>last_update_id\<close> (0 when absent) is the integer \<open>prior\<close>
  and the poll succeeds, then whenever \<^verbatim>\<open>process_incoming_commands\<close> returns, the stored
  \<^verbatim>\<open>last_update_id\<close> is the maximum of \<open>prior\<close> and all update ids of the batch, whatever
  their order, and so is not below \<open>prior\<close>; and it does return when the browser sessions
  start and close.
\<close>

theorem last_update_id_is_batch_maximum:
  assumes "dict_get s ''last_update_id'' (PInt 0) = PInt prior"
    and "tg_api cfg (GetUpdates (prior + 1)) w = (Inr resp, w1)"
  shows "(\<forall>s' w'. process_incoming_commands cfg s w = (Inr s', w') \<longrightarrow>
            dict_get s' ''last_update_id'' (PInt 0)
              = PInt (Max (insert prior (set (batch_ids (result_of resp)))))
            \<and> prior \<le> Max (insert prior (set (batch_ids (result_of resp)))))
         \<and> ((\<forall>k. \<not> launch_raises (browser w k)) \<and> (\<forall>k. \<not> close_raises (browser w k)) \<longrightarrow>
            (\<exists>s' w'. process_incoming_commands cfg s w = (Inr s', w')))"
proof -
  have le: "prior \<le> Max (insert prior (set (batch_ids (result_of resp))))"
    by (rule Max_ge) simp_all
  have a: "dict_get s' ''last_update_id'' (PInt 0)
              = PInt (Max (insert prior (set (batch_ids (result_of resp)))))"
    if p: "process_incoming_commands cfg s w = (Inr s', w')" for s' w'
  proof (cases "result_of resp = []")
    case True
    with p assms have "s' = s" by (simp add: process_incoming_commands_def)
    with True assms(1) show ?thesis by (simp add: batch_ids_def List.map_filter_simps)
  next
    case False
    obtain q w2 where h: "handle_updates cfg (result_of resp) prior w1 = (q, w2)"
      by (cases "handle_updates cfg (result_of resp) prior w1")
    show ?thesis
    proof (cases q)
      case (Inl e)
      with p assms False h show ?thesis by (simp add: process_incoming_commands_def)
    next
      case (Inr m)
      with p assms False h have s': "s' = s(''last_update_id'' \<mapsto> PInt m)"
        by (simp add: process_incoming_commands_def)
      from h Inr have "m = Max (insert prior (set (batch_ids (result_of resp))))"
        by (simp add: handle_updates_Max)
      with s' show ?thesis by (simp add: dict_get_def)
    qed
  qed
  have b: "\<exists>s' w'. process_incoming_commands cfg s w = (Inr s', w')"
    if "\<forall>k. \<not> launch_raises (browser w k)" "\<forall>k. \<not> close_raises (browser w k)"
  proof -
    from process_ok [of w cfg s] that obtain s' where "fst (process_incoming_commands cfg s w) = Inr s'"
      by auto
    then show ?thesis by (cases "process_incoming_commands cfg s w") auto
  qed
  from a b le show ?thesis by blast
qed


theorem last_update_id_is_batch_maximum_witness:
  "\<exists>s' w'. process_incoming_commands cfg_ex Map.empty
               (world_ex (Response True (JsonObject (Some batch_ex))) []) = (Inr s', w')
           \<and> dict_get s' ''last_update_id'' (PInt 0) = PInt 7"
proof -
  let ?w = "world_ex (Response True (JsonObject (Some batch_ex))) []"
  have a: "dict_get Map.empty ''last_update_id'' (PInt 0) = PInt 0"
    by (simp add: dict_get_def)
  have b: "tg_api cfg_ex (GetUpdates (0 + 1)) ?w
             = (Inr (JsonObject (Some batch_ex)),
                ?w\<lparr>exchanges := exchanges ?w @ [(GetUpdates (0 + 1), Response True (JsonObject (Some batch_ex)))]\<rparr>)"
    by (simp add: tg_api_def cfg_ex_def world_ex_def Let_def)
  have l: "\<forall>k. \<not> launch_raises (browser ?w k)" by (simp add: world_ex_def session_ex_def)
  have c: "\<forall>k. \<not> close_raises (browser ?w k)" by (simp add: world_ex_def session_ex_def)
  have m: "Max (insert 0 (set (batch_ids (result_of (JsonObject (Some batch_ex)))))) = 7"
    by (simp add: batch_ids_def batch_ex_def update_ex_def List.map_filter_simps)
  from last_update_id_is_batch_maximum [OF a b] l c m show ?thesis by metis
qed

section \<open>Scraper: exceptions of the navigation\<close>

lemma and_then_call_Inr [simp]:
  "and_then (call s st) b = Inr v \<longleftrightarrow> \<not> raises s st \<and> b = Inr v"
  by (simp add: and_then_def call_def)

lemma and_then_cookie_Inr [simp]:
  "and_then (if c then call s st else Inr ()) b = Inr v \<longleftrightarrow> (c \<longrightarrow> \<not> raises s st) \<and> b = Inr v"
  by (simp add: and_then_def call_def)

lemma collect_dates_no_raise:
  "collect_dates xs acc = Inr found \<Longrightarrow> AttrRaises \<notin> set xs"
  by (induction xs acc rule: collect_dates.induct) (auto split: if_splits sum.splits)

lemma scrape_page_Some:
  assumes "scrape_page s = Inr (Some d)"
  shows "(raises s st \<longrightarrow> st = ClickCookie \<and> \<not> cookie_visible s)
         \<and> AttrRaises \<notin> set (date_inputs s)"
proof -
  from assms have steps:
    "\<not> raises s Goto" "\<not> raises s IsVisibleCookie" "cookie_visible s \<longrightarrow> \<not> raises s ClickCookie"
    "\<not> raises s WaitInputBox" "\<not> raises s ClickPlus" "\<not> raises s ClickWeiter1"
    "\<not> raises s WaitDialog" "\<not> raises s ClickDialogOk" "\<not> raises s WaitLocation"
    "\<not> raises s ClickWeiter2"
    and rest: "(case call s WaitSuggestionForm of Inl e \<Rightarrow> Inr None | Inr u \<Rightarrow> read_dates s)
                = Inr (Some d)"
    by (simp_all add: scrape_page_def)
  from rest have w: "\<not> raises s WaitSuggestionForm" and rd: "read_dates s = Inr (Some d)"
    by (auto simp: call_def split: if_splits)
  from rd have l: "\<not> raises s LocateDateInputs"
    and "\<exists>found. collect_dates (date_inputs s) {} = Inr found"
    by (auto simp: read_dates_def split: sum.splits)
  then have a: "AttrRaises \<notin> set (date_inputs s)"
    using collect_dates_no_raise by blast
  from steps w l have "raises s st \<longrightarrow> st = ClickCookie \<and> \<not> cookie_visible s"
    by (cases st) auto
  with a show ?thesis by simp
qed

text \<open>
  Claim C3. In a session whose browser starts and closes, \<^verbatim>\<open>check_for_appointments\<close>
  returns normally; and if any call of the navigation sequence raises (the click on the
  cookie button counting only when the button is visible), the wait for the suggestion
  form included, or reading a date input raises, the result is \<^verbatim>\<open>None\<close>.
\<close>

theorem scraper_exceptions_give_none:
  assumes "\<not> launch_raises (browser w (scrapes w))"
    and "\<not> close_raises (browser w (scrapes w))"
  shows "(\<exists>r. fst (check_for_appointments w) = Inr r)
         \<and> ((\<exists>st. raises (browser w (scrapes w)) st
                   \<and> (st = ClickCookie \<longrightarrow> cookie_visible (browser w (scrapes w))))
              \<or> AttrRaises \<in> set (date_inputs (browser w (scrapes w)))
             \<longrightarrow> fst (check_for_appointments w) = Inr None)"
proof -
  let ?s = "browser w (scrapes w)"
  have r: "fst (check_for_appointments w)
             = (case scrape_page ?s of Inl e \<Rightarrow> Inr None | Inr v \<Rightarrow> Inr v)"
    using assms by (simp add: check_for_appointments_def Let_def)
  have 1: "\<exists>r. fst (check_for_appointments w) = Inr r"
    unfolding r by (simp split: sum.splits)
  have 2: "fst (check_for_appointments w) = Inr None"
    if c: "(\<exists>st. raises ?s st \<and> (st = ClickCookie \<longrightarrow> cookie_visible ?s))
           \<or> AttrRaises \<in> set (date_inputs ?s)"
  proof (cases "scrape_page ?s")
    case (Inl e)
    then show ?thesis unfolding r by simp
  next
    case (Inr v)
    show ?thesis
    proof (cases v)
      case None
      with Inr show ?thesis unfolding r by simp
    next
      case (Some d)
      with Inr have "scrape_page ?s = Inr (Some d)" by simp
      from scrape_page_Some [OF this] c show ?thesis by blast
    qed
  qed
  from 1 2 show ?thesis by blast
qed

theorem scraper_exceptions_give_none_witness:
  "fst (check_for_appointments (world_timeout WaitInputBox)) = Inr None
   \<and> fst (check_for_appointments (world_timeout WaitSuggestionForm)) = Inr None
   \<and> fst (check_for_appointments (world_timeout Goto)) = Inr None"
proof -
  have a: "\<not> launch_raises (browser (world_timeout st) (scrapes (world_timeout st)))" for st
    by (simp add: world_timeout_def session_timeout_def)
  have b: "\<not> close_raises (browser (world_timeout st) (scrapes (world_timeout st)))" for st
    by (simp add: world_timeout_def session_timeout_def)
  have c: "\<exists>x. raises (browser (world_timeout st) (scrapes (world_timeout st))) x
              \<and> (x = ClickCookie \<longrightarrow> cookie_visible (browser (world_timeout st) (scrapes (world_timeout st))))"
    if "st \<noteq> ClickCookie" for st
    using that by (auto simp: world_timeout_def session_timeout_def)
  from scraper_exceptions_give_none [OF a b, of WaitInputBox] c [of WaitInputBox]
    scraper_exceptions_give_none [OF a b, of WaitSuggestionForm] c [of WaitSuggestionForm]
    scraper_exceptions_give_none [OF a b, of Goto] c [of Goto]
  show ?thesis by blast
qed

section \<open>Orchestrator: the alert of the scheduled pass\<close>

lemma notify_if_earlier_unfold:
  "notify_if_earlier cfg earliest s w =
     (case earliest of
        None \<Rightarrow> (Inr s, w)
      | Some d \<Rightarrow>
          if alert_due cfg (Some d) s
          then (Inr (s(''last_notified_earliest'' \<mapsto> PInt d)),
                snd (send_telegram cfg (DEFAULT_CHAT_ID cfg)
                       (EarlierAlert d (MY_CURRENT_APPOINTMENT cfg)) w))
          else (Inr s, w))"
proof (cases earliest)
  case None
  then show ?thesis by (simp add: notify_if_earlier_def)
next
  case (Some d)
  let ?t = "send_telegram cfg (DEFAULT_CHAT_ID cfg) (EarlierAlert d (MY_CURRENT_APPOINTMENT cfg)) w"
  obtain r w1 where t: "?t = (r, w1)" by (cases ?t)
  have r: "r = Inr ()"
    using send_telegram_ok [of cfg "DEFAULT_CHAT_ID cfg" "EarlierAlert d (MY_CURRENT_APPOINTMENT cfg)" w] t
    by simp
  have e: "DEFAULT_CHAT_ID cfg = [] \<Longrightarrow> w1 = w"
    using t by (simp add: send_telegram_def)
  from Some t r e show ?thesis
    by (auto simp: notify_if_earlier_def alert_due_def Let_def)
qed

text \<open>
  Claim C1, as amended. In the scheduled pass, with the bot token present (as \<^verbatim>\<open>main\<close>
  requires) and the scraper returning normally: \<^verbatim>\<open>last_notified_earliest\<close> is set to the
  date exactly when the scraper returned a date that is strictly smaller than the current
  appointment and whose \<^verbatim>\<open>str\<close> differs from the \<^verbatim>\<open>str\<close> of the stored value; in that
  case the alert is sent to the default recipient if one is configured, and nothing is sent
  if none is. In every other case nothing is sent and the state is unchanged.
\<close>

theorem scheduled_pass_alert:
  assumes "check_for_appointments w = (Inr earliest, w1)"
    and "BOT_TOKEN cfg \<noteq> []"
  shows "\<exists>s' w'. scheduled_pass cfg s w = (Inr s', w')
           \<and> (alert_due cfg earliest s \<longrightarrow>
                (\<exists>d. earliest = Some d
                   \<and> s' = s(''last_notified_earliest'' \<mapsto> PInt d)
                   \<and> sent w' = sent w1 @
                        (if DEFAULT_CHAT_ID cfg = [] then []
                         else [(DEFAULT_CHAT_ID cfg, EarlierAlert d (MY_CURRENT_APPOINTMENT cfg))])))
           \<and> (\<not> alert_due cfg earliest s \<longrightarrow> s' = s \<and> w' = w1)"
proof (cases earliest)
  case None
  with assms(1) show ?thesis
    by (simp add: scheduled_pass_def notify_if_earlier_unfold alert_due_def)
next
  case (Some d)
  with assms show ?thesis
    by (simp add: scheduled_pass_def notify_if_earlier_unfold send_telegram_sent)
qed

text \<open>Evaluation of the string functions and of the scraper on the example inputs.\<close>

lemma char_of_eq: "char_of (n::nat) = c \<longleftrightarrow> n mod 256 = of_char c"
proof
  assume "char_of n = c"
  then have "of_char (char_of n) = (of_char c :: nat)" by simp
  then show "n mod 256 = of_char c" by simp
next
  assume "n mod 256 = of_char c"
  then have "char_of (n mod 256) = (char_of (of_char c :: nat) :: char)" by simp
  then show "char_of n = c" by simp
qed

lemma ex_isdigit: "isdigit ''20251231''" "isdigit ''20260101''" "isdigit ''20260201''"
  by (simp_all add: isdigit_def isdigit_char_def is_ascii_digit_def)

lemma ex_py_int: "py_int ''20251231'' = Inr 20251231" "py_int ''20260101'' = Inr 20260101"
    "py_int ''20260201'' = Inr 20260201"
  by (simp_all add: py_int_def is_ascii_digit_def int_max_str_digits_def decimal_value_def
      digit_value_def)

lemma ex_str_int: "str_int 20251231 = ''20251231''" "str_int 20260101 = ''20260101''"
    "str_int 20260201 = ''20260201''"
  by (simp_all add: str_int_def digits_of_nat.simps digit_char_def char_of_eq)

lemma scrape_page_all_ok:
  assumes "\<And>st. \<not> raises s st"
  shows "scrape_page s =
           (case collect_dates (date_inputs s) {} of
              Inl e \<Rightarrow> Inl e
            | Inr found \<Rightarrow> if found = {} then Inr None else Inr (Some (Min found)))"
  using assms by (simp add: scrape_page_def read_dates_def and_then_def call_def)

lemma check_ex:
  "check_for_appointments (world_ex r dates) =
     (case collect_dates dates {} of
        Inl e \<Rightarrow> Inr None
      | Inr found \<Rightarrow> if found = {} then Inr None else Inr (Some (Min found)),
      (world_ex r dates)\<lparr>scrapes := 1\<rparr>)"
proof -
  have "scrape_page (session_ex dates) =
           (case collect_dates (date_inputs (session_ex dates)) {} of
              Inl e \<Rightarrow> Inl e
            | Inr found \<Rightarrow> if found = {} then Inr None else Inr (Some (Min found)))"
    by (rule scrape_page_all_ok) (simp add: session_ex_def)
  then show ?thesis
    by (simp add: check_for_appointments_def world_ex_def session_ex_def Let_def split: sum.splits)
qed

lemma check_ex_single:
  "check_for_appointments (world_ex r [AttrValue (Some ''20251231'')])
     = (Inr (Some 20251231), (world_ex r [AttrValue (Some ''20251231'')])\<lparr>scrapes := 1\<rparr>)"
  "check_for_appointments (world_ex r [AttrValue (Some ''20260101'')])
     = (Inr (Some 20260101), (world_ex r [AttrValue (Some ''20260101'')])\<lparr>scrapes := 1\<rparr>)"
  "check_for_appointments (world_ex r [AttrValue (Some ''20260201'')])
     = (Inr (Some 20260201), (world_ex r [AttrValue (Some ''20260201'')])\<lparr>scrapes := 1\<rparr>)"
  by (simp_all add: check_ex ex_isdigit ex_py_int)

theorem scheduled_pass_alert_witness:
  "(\<exists>w'. scheduled_pass cfg_ex [''last_notified_earliest'' \<mapsto> PInt 20260101]
            (world_ex ConnError [AttrValue (Some ''20251231'')])
          = (Inr [''last_notified_earliest'' \<mapsto> PInt 20251231], w')
        \<and> sent w' = [(''42'', EarlierAlert 20251231 20260210)])
   \<and> scheduled_pass cfg_ex [''last_notified_earliest'' \<mapsto> PInt 20260101]
            (world_ex ConnError [AttrValue (Some ''20260101'')])
          = (Inr [''last_notified_earliest'' \<mapsto> PInt 20260101],
             (world_ex ConnError [AttrValue (Some ''20260101'')])\<lparr>scrapes := 1\<rparr>)"
proof -
  have t: "BOT_TOKEN cfg_ex \<noteq> []" by (simp add: cfg_ex_def)
  have d1: "alert_due cfg_ex (Some 20251231) [''last_notified_earliest'' \<mapsto> PInt 20260101]"
    by (simp add: alert_due_def cfg_ex_def dict_get_def ex_str_int)
  have d2: "\<not> alert_due cfg_ex (Some 20260101) [''last_notified_earliest'' \<mapsto> PInt 20260101]"
    by (simp add: alert_due_def cfg_ex_def dict_get_def ex_str_int)
  have s1: "sent ((world_ex ConnError [AttrValue (Some ''20251231'')])\<lparr>scrapes := 1\<rparr>) = []"
    by (simp add: sent_def world_ex_def)
  from scheduled_pass_alert [OF check_ex_single(1) [of ConnError] t,
      of "[''last_notified_earliest'' \<mapsto> PInt 20260101]"] d1 s1
  have 1: "\<exists>w'. scheduled_pass cfg_ex [''last_notified_earliest'' \<mapsto> PInt 20260101]
            (world_ex ConnError [AttrValue (Some ''20251231'')])
          = (Inr [''last_notified_earliest'' \<mapsto> PInt 20251231], w')
        \<and> sent w' = [(''42'', EarlierAlert 20251231 20260210)]"
    by (auto simp: cfg_ex_def)
  from scheduled_pass_alert [OF check_ex_single(2) [of ConnError] t,
      of "[''last_notified_earliest'' \<mapsto> PInt 20260101]"] d2
  have 2: "scheduled_pass cfg_ex [''last_notified_earliest'' \<mapsto> PInt 20260101]
            (world_ex ConnError [AttrValue (Some ''20260101'')])
          = (Inr [''last_notified_earliest'' \<mapsto> PInt 20260101],
             (world_ex ConnError [AttrValue (Some ''20260101'')])\<lparr>scrapes := 1\<rparr>)"
    by auto
  from 1 2 show ?thesis by blast
qed

text \<open>
  Claim C1 as stated fails when no default recipient is configured: with an empty state,
  the current appointment 20260210 and the scraper returning 20260201, the condition holds
  and \<^verbatim>\<open>last_notified_earliest\<close> is set, but no alert is sent.
\<close>

theorem alert_needs_recipient_counterexample:
  "\<not> ((sent (snd (scheduled_pass cfg_no_recipient Map.empty
                    (world_ex ConnError [AttrValue (Some ''20260201'')])))
          \<noteq> sent (world_ex ConnError [AttrValue (Some ''20260201'')])
        \<and> fst (scheduled_pass cfg_no_recipient Map.empty
                  (world_ex ConnError [AttrValue (Some ''20260201'')]))
          = Inr [''last_notified_earliest'' \<mapsto> PInt 20260201])
       \<longleftrightarrow> alert_due cfg_no_recipient (Some 20260201) Map.empty)"
proof -
  have d: "alert_due cfg_no_recipient (Some 20260201) Map.empty"
    by (simp add: alert_due_def cfg_no_recipient_def cfg_ex_def dict_get_def ex_str_int)
  have "scheduled_pass cfg_no_recipient Map.empty (world_ex ConnError [AttrValue (Some ''20260201'')])
          = (Inr [''last_notified_earliest'' \<mapsto> PInt 20260201],
             (world_ex ConnError [AttrValue (Some ''20260201'')])\<lparr>scrapes := 1\<rparr>)"
    using d
    by (simp add: scheduled_pass_def check_ex_single notify_if_earlier_unfold send_telegram_def
        cfg_no_recipient_def)
  then have "sent (snd (scheduled_pass cfg_no_recipient Map.empty
                    (world_ex ConnError [AttrValue (Some ''20260201'')])))
          = sent (world_ex ConnError [AttrValue (Some ''20260201'')])"
    by (simp add: sent_def)
  with d show ?thesis by simp
qed

section \<open>Scraper: the minimum of the dates\<close>

text \<open>On plain date inputs the loop collects exactly the candidates, and the scraper
  returns their minimum, or \<^verbatim>\<open>None\<close> when there is none.\<close>

lemma decimal_isdigit: "is_decimal_string v \<Longrightarrow> isdigit v"
  by (induction v) (auto simp: is_decimal_string_def isdigit_def isdigit_char_def list_all_iff)

lemma collect_dates_plain:
  "list_all plain_value xs \<Longrightarrow> collect_dates xs acc = Inr (acc \<union> set (valid_dates xs))"
proof (induction xs acc rule: collect_dates.induct)
  case (1 found)
  then show ?case by simp
next
  case (2 rest found)
  then show ?case by simp
next
  case (3 rest found)
  then show ?case by simp
next
  case (4 val rest found)
  show ?case
  proof (cases "isdigit val")
    case True
    with "4.prems" have d: "list_all is_ascii_digit val" "length val \<le> int_max_str_digits"
      and r: "list_all plain_value rest" by simp_all
    from True have ne: "val \<noteq> []" by (simp add: isdigit_def)
    with d have p: "py_int val = Inr (decimal_value val)" by (simp add: py_int_def)
    from ne d have dec: "is_decimal_string val" by (simp add: is_decimal_string_def)
    from "4.IH"(1) [of "decimal_value val"] True ne p r
    have "collect_dates rest (insert (decimal_value val) found)
            = Inr (insert (decimal_value val) found \<union> set (valid_dates rest))" by simp
    with True ne p dec show ?thesis by simp
  next
    case False
    then have nd: "\<not> is_decimal_string val" using decimal_isdigit by blast
    from "4.prems" have r: "list_all plain_value rest" by simp
    from "4.IH"(2) False r have "collect_dates rest found = Inr (found \<union> set (valid_dates rest))"
      by simp
    with False nd show ?thesis by simp
  qed
qed

lemma scraper_returns_minimum:
  assumes "\<not> launch_raises (browser w (scrapes w))"
    and "\<not> close_raises (browser w (scrapes w))"
    and "\<And>st. \<not> raises (browser w (scrapes w)) st"
    and "list_all plain_value (date_inputs (browser w (scrapes w)))"
  shows "fst (check_for_appointments w) =
           Inr (if valid_dates (date_inputs (browser w (scrapes w))) = [] then None
                else Some (Min (set (valid_dates (date_inputs (browser w (scrapes w)))))))"
proof -
  let ?s = "browser w (scrapes w)"
  have "collect_dates (date_inputs ?s) {} = Inr (set (valid_dates (date_inputs ?s)))"
    using collect_dates_plain [OF assms(4), of "{}"] by simp
  with scrape_page_all_ok [of ?s] assms(3)
  have "scrape_page ?s = (if valid_dates (date_inputs ?s) = [] then Inr None
                          else Inr (Some (Min (set (valid_dates (date_inputs ?s))))))"
    by simp
  with assms(1,2) show ?thesis
    by (simp add: check_for_appointments_def Let_def)
qed

text \<open>
  Claim C2 at an input that is not plain. The superscript two, U+00B2, passes
  \<^verbatim>\<open>isdigit\<close> but \<^verbatim>\<open>int\<close> raises \<^verbatim>\<open>ValueError\<close> on it. When the page holds the date
  inputs \<^verbatim>\<open>20260101\<close> and the superscript two, the exception leaves the loop and the
  scraper returns \<^verbatim>\<open>None\<close>, whereas on \<^verbatim>\<open>20260101\<close> alone it returns 20260101: the
  second value is not excluded, it discards the valid date.
\<close>

lemma ex_superscript: "isdigit [CHR 0xB2]" "py_int [CHR 0xB2] = Inl ValueError"
  by (simp_all add: isdigit_def isdigit_char_def is_ascii_digit_def py_int_def)

theorem superscript_digit_aborts_scrape:
  "isdigit [CHR 0xB2] \<and> py_int [CHR 0xB2] = Inl ValueError
   \<and> fst (check_for_appointments
            (world_ex ConnError [AttrValue (Some ''20260101''), AttrValue (Some [CHR 0xB2])]))
       = Inr None
   \<and> fst (check_for_appointments (world_ex ConnError [AttrValue (Some ''20260101'')]))
       = Inr (Some 20260101)"
  by (simp add: check_ex check_ex_single ex_isdigit ex_py_int ex_superscript)

end
